theory Spec2Isabelle
  imports Main
begin

section \<open>JavaScript values\<close>

text \<open>
  The values that flow through \<^verbatim>\<open>src/index.js\<close>: the mappings produced by the XML
  parser (strings, objects, arrays, \<^verbatim>\<open>null\<close> for an empty document), the values the
  verify callback hands to \<^verbatim>\<open>verified\<close>, and the Error objects built with
  \<^verbatim>\<open>new Error(msg)\<close>.  An object is an association list of its own properties; lookups
  go through \<open>map_of\<close>, so the first binding of a key is the property.  Strings are byte
  strings.  Numbers are left out: neither the XML parser nor the query parser yields one.
\<close>

datatype jsval =
    JUndefined
  | JNull
  | JBool bool
  | JStr string
  | JObj "(string \<times> jsval) list"
  | JArr "jsval list"
  | JError string
  | JTypeError

text \<open>The result of an expression that may throw: \<open>Inl\<close> carries the thrown value.\<close>

type_synonym 'a js = "jsval + 'a"

text \<open>JavaScript truthiness (\<^verbatim>\<open>if (x)\<close>, \<^verbatim>\<open>!x\<close>, \<^verbatim>\<open>x || y\<close>).\<close>

fun truthy :: "jsval \<Rightarrow> bool" where
  "truthy JUndefined = False"
| "truthy JNull = False"
| "truthy (JBool b) = b"
| "truthy (JStr s) = (s \<noteq> [])"
| "truthy (JObj kvs) = True"
| "truthy (JArr vs) = True"
| "truthy (JError m) = True"
| "truthy JTypeError = True"

text \<open>
  Property read \<^verbatim>\<open>v.k\<close> for the data property names the source uses.  Reading a
  property of \<^verbatim>\<open>undefined\<close> or \<^verbatim>\<open>null\<close> throws a TypeError; on an object a missing
  key reads as \<^verbatim>\<open>undefined\<close>; strings, arrays, booleans and errors have none of these
  names as properties.
\<close>

fun get_prop :: "jsval \<Rightarrow> string \<Rightarrow> jsval js" where
  "get_prop JUndefined k = Inl JTypeError"
| "get_prop JNull k = Inl JTypeError"
| "get_prop (JObj kvs) k = Inr (case map_of kvs k of None \<Rightarrow> JUndefined | Some v \<Rightarrow> v)"
| "get_prop (JBool b) k = Inr JUndefined"
| "get_prop (JStr s) k = Inr JUndefined"
| "get_prop (JArr vs) k = Inr JUndefined"
| "get_prop (JError m) k = Inr JUndefined"
| "get_prop JTypeError k = Inr JUndefined"

text \<open>A chain of property reads \<^verbatim>\<open>v.k1.k2...\<close>, left to right, stopping at the first throw.\<close>

fun get_path :: "jsval \<Rightarrow> string list \<Rightarrow> jsval js" where
  "get_path v [] = Inr v"
| "get_path v (k # ks) = (case get_prop v k of Inl e \<Rightarrow> Inl e | Inr w \<Rightarrow> get_path w ks)"

text \<open>
  Property write \<^verbatim>\<open>o[k] = v\<close> on an object: an existing key keeps its place and a new
  one goes last.  Two things JavaScript does are not modelled: it enumerates keys that are
  array indices before the others, and on a plain object an assignment to the key
  \<^verbatim>\<open>__proto__\<close> stores no own property.  The general statements below read objects
  through \<open>map_of\<close>, so the order of the keys does not enter them.
\<close>

fun obj_set :: "(string \<times> jsval) list \<Rightarrow> string \<Rightarrow> jsval \<Rightarrow> (string \<times> jsval) list" where
  "obj_set [] k v = [(k, v)]"
| "obj_set ((k', v') # kvs) k v =
     (if k' = k then (k, v) # kvs else (k', v') # obj_set kvs k v)"

text \<open>\<^verbatim>\<open>delete o[k]\<close>.\<close>

definition obj_delete :: "(string \<times> jsval) list \<Rightarrow> string \<Rightarrow> (string \<times> jsval) list" where
  "obj_delete kvs k = filter (\<lambda>kv. fst kv \<noteq> k) kvs"

section \<open>Strings\<close>

text \<open>\<^verbatim>\<open>s.split(c)\<close> for a one-character separator: never empty, \<^verbatim>\<open>''.split(c)\<close> is \<^verbatim>\<open>['']\<close>.\<close>

fun split_on :: "char \<Rightarrow> string \<Rightarrow> string list" where
  "split_on c [] = [[]]"
| "split_on c (x # xs) =
     (if x = c then [] # split_on c xs
      else (case split_on c xs of [] \<Rightarrow> [[x]] | l # ls \<Rightarrow> (x # l) # ls))"

definition newline :: char where
  "newline = CHR 0x0A"

text \<open>\<^verbatim>\<open>s.match(/Success$/)\<close> is non-null exactly when \<open>s\<close> ends in \<^verbatim>\<open>Success\<close>.\<close>

definition ends_with :: "string \<Rightarrow> string \<Rightarrow> bool" where
  "ends_with suf s = (length suf \<le> length s \<and> drop (length s - length suf) s = suf)"

text \<open>
  \<^verbatim>\<open>toLowerCase\<close> on the ASCII letters; other bytes are kept, so the model is that of
  JavaScript on strings whose letters are ASCII.
\<close>

definition lower_char :: "char \<Rightarrow> char" where
  "lower_char c =
     (let n = of_char c :: nat in if 65 \<le> n \<and> n \<le> 90 then char_of (n + 32) else c)"

definition toLowerCase :: "string \<Rightarrow> string" where
  "toLowerCase s = map lower_char s"

section \<open>Requests, the verify callback and the signalled outcomes\<close>

text \<open>
  The incoming request as the strategy reads it: \<^verbatim>\<open>req.originalUrl\<close>, \<^verbatim>\<open>req.url\<close> and
  \<^verbatim>\<open>req.query.RelayState\<close>.
\<close>

record request =
  originalUrl :: "string option"
  url :: string
  relayState :: jsval

text \<open>
  One call \<^verbatim>\<open>verified(err, user, info)\<close> made by the caller's verify function.
\<close>

type_synonym done_call = "jsval \<times> jsval \<times> jsval"

text \<open>
  The caller's verify function, called as \<^verbatim>\<open>verify(req, principal, verified)\<close> when
  \<^verbatim>\<open>passReqToCallback\<close> is set and as \<^verbatim>\<open>verify(principal, verified)\<close> otherwise.  What
  the strategy observes of it is the calls it makes to \<^verbatim>\<open>verified\<close>, in order, and the
  value it throws, if any.
\<close>

type_synonym verify_fn = "request option \<Rightarrow> jsval \<Rightarrow> done_call list \<times> jsval option"

text \<open>
  What the strategy signals to the host middleware: \<^verbatim>\<open>this.success\<close>, \<^verbatim>\<open>this.fail\<close>,
  \<^verbatim>\<open>this.error\<close>, \<^verbatim>\<open>this.redirect\<close>, and the call \<^verbatim>\<open>req.logout()\<close>.
\<close>

datatype action =
    Success jsval jsval
  | Fail jsval
  | Error jsval
  | Redirect string
  | Logout

text \<open>The closure \<^verbatim>\<open>verified\<close> of \<^verbatim>\<open>authenticate\<close> (lines 172-182).\<close>

definition verified :: "done_call \<Rightarrow> action" where
  "verified c =
     (case c of (err, user, info) \<Rightarrow>
        if truthy err then Error err
        else if \<not> truthy user then Fail info
        else Success user info)"

text \<open>\<^verbatim>\<open>verified(new Error(msg))\<close>: the other two arguments are \<^verbatim>\<open>undefined\<close>.\<close>

definition verified_error :: "string \<Rightarrow> action" where
  "verified_error msg = verified (JError msg, JUndefined, JUndefined)"

text \<open>
  The effect of running a piece of the strategy: the actions signalled, in order, and the
  exception that escaped, if any.
\<close>

type_synonym effect = "action list \<times> jsval option"

text \<open>
  The branch \<^verbatim>\<open>if (self._passReqToCallback) self._verify(req, p, verified) else
  self._verify(p, verified)\<close>, which all three validators share.
\<close>

definition call_verify :: "bool \<Rightarrow> verify_fn \<Rightarrow> request \<Rightarrow> jsval \<Rightarrow> effect" where
  "call_verify passReq verify req p =
     (case verify (if passReq then Some req else None) p of
        (calls, thrown) \<Rightarrow> (map verified calls, thrown))"

section \<open>The CAS 1.0 validator (lines 46-61)\<close>

definition validate_cas1 :: "bool \<Rightarrow> verify_fn \<Rightarrow> request \<Rightarrow> string \<Rightarrow> effect" where
  "validate_cas1 passReq verify req body =
     (let lines = split_on newline body;
          bad = ([verified_error ''The response from the server was bad''], None)
      in if length lines \<ge> 1 then
           (if lines ! 0 = ''no'' then
              ([verified_error ''Authentication failed''], None)
            else if lines ! 0 = ''yes'' \<and> length lines \<ge> 2 then
              call_verify passReq verify req (JStr (lines ! 1))
            else bad)
         else bad)"

section \<open>The library functions the strategy calls\<close>

text \<open>
  The object \<^verbatim>\<open>url.parse\<close> returns and \<^verbatim>\<open>url.format\<close> takes.  \<open>None\<close> stands for a
  field that is \<^verbatim>\<open>null\<close> or absent; \<^verbatim>\<open>url.format\<close> reads both as empty.
\<close>

record url_obj =
  protocol :: "string option"
  slashes :: bool
  auth :: "string option"
  host :: "string option"
  port :: "string option"
  hostname :: "string option"
  hash :: "string option"
  search :: "string option"
  query :: "(string \<times> jsval) list"
  pathname :: "string option"
  href :: "string option"

text \<open>
  The functions of Node and of \<^verbatim>\<open>xml2js\<close> are not part of \<^verbatim>\<open>src/index.js\<close>; the model
  takes them as parameters.
  \<^item> \<open>url_parse s\<close> is \<^verbatim>\<open>url.parse(s, true)\<close>, the query string parsed into an object.  The
    constructor calls \<^verbatim>\<open>url.parse(s)\<close> and reads \<^verbatim>\<open>protocol\<close>, \<^verbatim>\<open>hostname\<close>,
    \<^verbatim>\<open>port\<close> and \<^verbatim>\<open>pathname\<close> only, which do not depend on the flag.
  \<^item> \<open>url_resolve\<close> and \<open>url_format\<close> are \<^verbatim>\<open>url.resolve\<close> and \<^verbatim>\<open>url.format\<close> on strings;
    the source's calls with \<^verbatim>\<open>undefined\<close> throw a TypeError, which the model
    writes out at each call.
  \<^item> \<open>parseString body\<close> is \<^verbatim>\<open>parseString(body, xmlParseOpts, callback)\<close>: \<open>Inl err\<close>
    when the callback gets an error, \<open>Inr result\<close> when it gets the parsed mapping
    (tag names lower-cased and stripped of their prefix, attributes under \<^verbatim>\<open>$\<close>).
  \<^item> \<open>util_format_s v\<close> is what \<^verbatim>\<open>util.format\<close> puts for a \<^verbatim>\<open>%s\<close> given \<open>v\<close>.
\<close>

record node_lib =
  url_parse :: "string \<Rightarrow> url_obj"
  url_resolve :: "string \<Rightarrow> string \<Rightarrow> string"
  url_format :: "url_obj \<Rightarrow> string"
  parseString :: "string \<Rightarrow> jsval js"
  util_format_s :: "jsval \<Rightarrow> string"

text \<open>
  \<^verbatim>\<open>String(v)\<close>, as string concatenation and template literals compute it.  The message
  of an engine TypeError is not modelled.
\<close>

fun join_comma :: "string list \<Rightarrow> string" where
  "join_comma [] = []"
| "join_comma [s] = s"
| "join_comma (s # t # ss) = s @ '','' @ join_comma (t # ss)"

fun to_string :: "jsval \<Rightarrow> string" where
  "to_string JUndefined = ''undefined''"
| "to_string JNull = ''null''"
| "to_string (JBool b) = (if b then ''true'' else ''false'')"
| "to_string (JStr s) = s"
| "to_string (JObj kvs) = ''[object Object]''"
| "to_string (JArr vs) =
     join_comma (map (\<lambda>v. if v = JUndefined \<or> v = JNull then [] else to_string v) vs)"
| "to_string (JError m) = (if m = [] then ''Error'' else ''Error: '' @ m)"
| "to_string JTypeError = ''TypeError''"

section \<open>try and catch\<close>

text \<open>A value that may throw, continued by code with effects.\<close>

definition bind_js :: "'a js \<Rightarrow> ('a \<Rightarrow> effect) \<Rightarrow> effect" where
  "bind_js m f = (case m of Inl e \<Rightarrow> ([], Some e) | Inr x \<Rightarrow> f x)"

text \<open>
  \<^verbatim>\<open>try { body } catch (e) { handler }\<close>: the actions signalled before the throw stay
  signalled, then the handler runs.
\<close>

definition try_catch :: "effect \<Rightarrow> (jsval \<Rightarrow> effect) \<Rightarrow> effect" where
  "try_catch body handler =
     (case body of
        (acts, None) \<Rightarrow> (acts, None)
      | (acts, Some e) \<Rightarrow> (case handler e of (acts', t) \<Rightarrow> (acts @ acts', t)))"

section \<open>The CAS 3.0 validator (lines 99-122)\<close>

text \<open>The body of the \<^verbatim>\<open>try\<close> block, lines 105-117.\<close>

definition cas3_try :: "bool \<Rightarrow> verify_fn \<Rightarrow> request \<Rightarrow> jsval \<Rightarrow> effect" where
  "cas3_try passReq verify req result =
     bind_js (get_path result [''serviceresponse'', ''authenticationfailure'']) (\<lambda>failure.
       if truthy failure then
         bind_js (get_path result [''serviceresponse'', ''authenticationfailure'', ''$'', ''code''])
           (\<lambda>code. ([verified_error (''Authentication failed '' @ to_string code)], None))
       else
         bind_js (get_path result [''serviceresponse'', ''authenticationsuccess'']) (\<lambda>success.
           if truthy success then call_verify passReq verify req success
           else ([verified_error ''Authentication failed''], None)))"

definition validate_cas3 ::
  "node_lib \<Rightarrow> bool \<Rightarrow> verify_fn \<Rightarrow> request \<Rightarrow> string \<Rightarrow> effect" where
  "validate_cas3 L passReq verify req body =
     (case parseString L body of
        Inl err \<Rightarrow> ([verified_error ''The response from the server was bad''], None)
      | Inr result \<Rightarrow>
          try_catch (cas3_try passReq verify req result)
            (\<lambda>e. ([verified_error ''Authentication failed''], None)))"

section \<open>The SAML validator (lines 66-96)\<close>

text \<open>
  \<^verbatim>\<open>v.match(/Success$/)\<close>, read as a condition: a string matches when it ends in
  \<^verbatim>\<open>Success\<close>; \<^verbatim>\<open>undefined\<close> and \<^verbatim>\<open>null\<close> have no properties and the other values
  have no \<^verbatim>\<open>match\<close> method, so the call throws.
\<close>

definition match_success :: "jsval \<Rightarrow> bool js" where
  "match_success v = (case v of JStr s \<Rightarrow> Inr (ends_with ''Success'' s) | _ \<Rightarrow> Inl JTypeError)"

text \<open>
  The elements \<^verbatim>\<open>_.each\<close> visits: those of an array, the characters of a string, the
  property values of an object, none for \<^verbatim>\<open>undefined\<close>, \<^verbatim>\<open>null\<close> and the rest.
\<close>

fun each_items :: "jsval \<Rightarrow> jsval list" where
  "each_items (JArr vs) = vs"
| "each_items (JStr s) = map (\<lambda>c. JStr [c]) s"
| "each_items (JObj kvs) = map snd kvs"
| "each_items JUndefined = []"
| "each_items JNull = []"
| "each_items (JBool b) = []"
| "each_items (JError m) = []"
| "each_items JTypeError = []"

text \<open>
  The iteratee of line 78:
  \<^verbatim>\<open>attributes[attribute['$'].AttributeName.toLowerCase()] = attribute.attributevalue\<close>.
\<close>

definition attribute_step :: "(string \<times> jsval) list \<Rightarrow> jsval \<Rightarrow> (string \<times> jsval) list js" where
  "attribute_step attributes attribute =
     (case get_path attribute [''$'', ''AttributeName''] of
        Inl e \<Rightarrow> Inl e
      | Inr (JStr n) \<Rightarrow>
          (case get_prop attribute ''attributevalue'' of
             Inl e \<Rightarrow> Inl e
           | Inr v \<Rightarrow> Inr (obj_set attributes (toLowerCase n) v))
      | Inr _ \<Rightarrow> Inl JTypeError)"

fun each_attribute :: "jsval list \<Rightarrow> (string \<times> jsval) list \<Rightarrow> (string \<times> jsval) list js" where
  "each_attribute [] attributes = Inr attributes"
| "each_attribute (a # as) attributes =
     (case attribute_step attributes a of
        Inl e \<Rightarrow> Inl e
      | Inr attributes' \<Rightarrow> each_attribute as attributes')"

text \<open>The body of the \<^verbatim>\<open>try\<close> block, lines 72-91.\<close>

definition saml_try :: "bool \<Rightarrow> verify_fn \<Rightarrow> request \<Rightarrow> jsval \<Rightarrow> effect" where
  "saml_try passReq verify req result =
     bind_js (get_path result [''envelope'', ''body'', ''response'']) (\<lambda>response.
     bind_js (get_path response [''status'', ''statuscode'', ''$'', ''Value'']) (\<lambda>v.
     bind_js (match_success v) (\<lambda>success.
       if success then
         bind_js (get_path response [''assertion'', ''attributestatement'', ''attribute''])
           (\<lambda>attribute.
         bind_js (each_attribute (each_items attribute) []) (\<lambda>attributes.
         bind_js (get_path response
                    [''assertion'', ''authenticationstatement'', ''subject'', ''nameidentifier''])
           (\<lambda>user.
            call_verify passReq verify req
              (JObj [(''user'', user), (''attributes'', JObj attributes)]))))
       else ([verified_error ''Authentication failed''], None))))"

definition validate_saml ::
  "node_lib \<Rightarrow> bool \<Rightarrow> verify_fn \<Rightarrow> request \<Rightarrow> string \<Rightarrow> effect" where
  "validate_saml L passReq verify req body =
     (case parseString L body of
        Inl err \<Rightarrow> ([verified_error ''The response from the server was bad''], None)
      | Inr result \<Rightarrow>
          try_catch (saml_try passReq verify req result)
            (\<lambda>e. ([verified_error ''Authentication failed''], None)))"

section \<open>The strategy and its constructor (lines 12-128)\<close>

datatype http_client = Http | Https

text \<open>Which of the three closures the constructor stored in \<^verbatim>\<open>this._validate\<close>.\<close>

datatype validator = ValidateCAS1 | ValidateSAML | ValidateCAS3

text \<open>
  The fields of a constructed strategy.  \<open>s_verify\<close>, \<open>s_validateUri\<close> and \<open>s_validate\<close>
  are \<^verbatim>\<open>_verify\<close>, \<^verbatim>\<open>_validateUri\<close> and \<^verbatim>\<open>_validate\<close>, and \<open>passReqToCallback\<close> is
  \<^verbatim>\<open>_passReqToCallback\<close>.
\<close>

record strategy =
  version :: string
  ssoBase :: string
  serverBaseURL :: "string option"
  validateURL :: "string option"
  serviceURL :: "string option"
  useSaml :: bool
  parsed :: url_obj
  client :: http_client
  name :: string
  s_verify :: verify_fn
  passReqToCallback :: bool
  s_validateUri :: string
  s_validate :: validator

text \<open>The \<^verbatim>\<open>options\<close> object; \<open>None\<close> is a property that is not given.\<close>

record options =
  opt_version :: "string option"
  opt_ssoBaseURL :: "string option"
  opt_serverBaseURL :: "string option"
  opt_validateURL :: "string option"
  opt_serviceURL :: "string option"
  opt_useSaml :: bool
  opt_passReqToCallback :: bool

definition empty_options :: options where
  "empty_options =
     \<lparr>opt_version = None, opt_ssoBaseURL = None, opt_serverBaseURL = None,
      opt_validateURL = None, opt_serviceURL = None, opt_useSaml = False,
      opt_passReqToCallback = False\<rparr>"

text \<open>The first argument of the constructor: a function, an options object, or nothing.\<close>

datatype ctor_arg = ArgFunction verify_fn | ArgOptions options | ArgUndefined

text \<open>\<^verbatim>\<open>a || b\<close> on strings: the empty string and a missing one are falsy.\<close>

definition str_or :: "string option \<Rightarrow> string \<Rightarrow> string" where
  "str_or a b = (case a of None \<Rightarrow> b | Some x \<Rightarrow> if x = [] then b else x)"

text \<open>
  \<^verbatim>\<open>new Strategy(options, verify)\<close>.  The steps in the source's order: the swap of the
  arguments when \<^verbatim>\<open>options\<close> is a function, the check of \<^verbatim>\<open>verify\<close>, the reads of
  \<^verbatim>\<open>options\<close> (a TypeError when it is \<^verbatim>\<open>undefined\<close>), \<^verbatim>\<open>url.parse(this.ssoBase)\<close> (a
  TypeError when \<^verbatim>\<open>ssoBaseURL\<close> is not given), and the \<^verbatim>\<open>switch\<close> on the version.
\<close>

definition new_Strategy :: "node_lib \<Rightarrow> ctor_arg \<Rightarrow> verify_fn option \<Rightarrow> strategy js" where
  "new_Strategy L arg verify_arg =
     (let verify = (case arg of ArgFunction f \<Rightarrow> Some f | _ \<Rightarrow> verify_arg);
          opts = (case arg of ArgFunction f \<Rightarrow> Some empty_options
                  | ArgOptions given \<Rightarrow> Some given
                  | ArgUndefined \<Rightarrow> None)
      in case verify of
           None \<Rightarrow> Inl (JError ''cas authentication strategy requires a verify function'')
         | Some vf \<Rightarrow>
            (case opts of
               None \<Rightarrow> Inl JTypeError
             | Some options \<Rightarrow>
                (case opt_ssoBaseURL options of
                   None \<Rightarrow> Inl JTypeError
                 | Some sso \<Rightarrow>
                    (let this = \<lparr>version = str_or (opt_version options) ''CAS1.0'',
                                 ssoBase = sso,
                                 serverBaseURL = opt_serverBaseURL options,
                                 validateURL = opt_validateURL options,
                                 serviceURL = opt_serviceURL options,
                                 useSaml = opt_useSaml options,
                                 parsed = url_parse L sso,
                                 client = (if protocol (url_parse L sso) = Some ''http:''
                                           then Http else Https),
                                 name = ''cas'',
                                 s_verify = vf,
                                 passReqToCallback = opt_passReqToCallback options,
                                 s_validateUri = [],
                                 s_validate = ValidateCAS1\<rparr>
                     in if version this = ''CAS1.0'' then
                          Inr (this\<lparr>s_validateUri := ''/validate'',
                                    s_validate := ValidateCAS1\<rparr>)
                        else if version this = ''CAS3.0'' then
                          (if useSaml this then
                             Inr (this\<lparr>s_validateUri := ''/samlValidate'',
                                       s_validate := ValidateSAML\<rparr>)
                           else
                             Inr (this\<lparr>s_validateUri := ''/p3/serviceValidate'',
                                       s_validate := ValidateCAS3\<rparr>))
                        else Inl (JError (''unsupported version '' @ version this))))))"

section \<open>The service URL (lines 136-146)\<close>

definition service :: "node_lib \<Rightarrow> strategy \<Rightarrow> request \<Rightarrow> string js" where
  "service L this req =
     (let serviceURL = (case serviceURL this of
                          None \<Rightarrow> originalUrl req
                        | Some u \<Rightarrow> if u = [] then originalUrl req else Some u)
      in case (serverBaseURL this, serviceURL) of
           (Some base, Some rel) \<Rightarrow>
             (let resolvedURL = url_resolve L base rel;
                  parsedURL = url_parse L resolvedURL;
                  parsedURL = parsedURL\<lparr>query := obj_delete (query parsedURL) ''ticket''\<rparr>;
                  parsedURL = (if search parsedURL \<noteq> None then parsedURL\<lparr>search := None\<rparr>
                               else parsedURL)
              in Inr (url_format L parsedURL))
         | _ \<Rightarrow> Inl JTypeError)"

section \<open>One authentication attempt (lines 148-226)\<close>

text \<open>
  What the transport does after the request is sent, as the events the strategy listens
  to: \<^verbatim>\<open>data\<close> and \<^verbatim>\<open>end\<close> of the response, \<^verbatim>\<open>error\<close> of the request with the
  error's \<^verbatim>\<open>message\<close> if it has one.
\<close>

datatype transport_event = Data string | End | ReqError "string option"

text \<open>The request handed to \<^verbatim>\<open>client.request\<close> or \<^verbatim>\<open>client.get\<close>, and the body written.\<close>

record http_request =
  req_client :: http_client
  req_method :: string
  req_host :: "string option"
  req_port :: "string option"
  req_path :: string
  req_body :: "string option"

text \<open>What one attempt takes from its environment: \<^verbatim>\<open>uuidv4()\<close>, the clock, the transport.\<close>

record attempt_env =
  uuid :: string
  now :: string
  events :: "transport_event list"

text \<open>What one attempt does: its signals, the requests it sent, the exception it let out.\<close>

record attempt =
  signals :: "action list"
  requests :: "http_request list"
  thrown :: "jsval option"

text \<open>\<^verbatim>\<open>self._validate(req, body, verified)\<close>.\<close>

definition run_validate :: "node_lib \<Rightarrow> strategy \<Rightarrow> request \<Rightarrow> string \<Rightarrow> effect" where
  "run_validate L this req body =
     (case s_validate this of
        ValidateCAS1 \<Rightarrow> validate_cas1 (passReqToCallback this) (s_verify this) req body
      | ValidateSAML \<Rightarrow> validate_saml L (passReqToCallback this) (s_verify this) req body
      | ValidateCAS3 \<Rightarrow> validate_cas3 L (passReqToCallback this) (s_verify this) req body)"

text \<open>\<^verbatim>\<open>e.message || 'Unknown error'\<close>.\<close>

definition error_message :: "string option \<Rightarrow> string" where
  "error_message m = str_or m ''Unknown error''"

text \<open>
  The listeners of lines 186-191, 211 and 224 run over the events in order, \<open>body\<close> being
  what the \<^verbatim>\<open>data\<close> listener has collected.  An exception that leaves a listener ends
  the run.
\<close>

fun run_events ::
  "node_lib \<Rightarrow> strategy \<Rightarrow> request \<Rightarrow> string \<Rightarrow> transport_event list \<Rightarrow> effect" where
  "run_events L this req body [] = ([], None)"
| "run_events L this req body (Data chunk # es) = run_events L this req (body @ chunk) es"
| "run_events L this req body (End # es) =
     (case run_validate L this req body of
        (acts, Some e) \<Rightarrow> (acts, Some e)
      | (acts, None) \<Rightarrow>
          (case run_events L this req body es of (acts', t) \<Rightarrow> (acts @ acts', t)))"
| "run_events L this req body (ReqError m # es) =
     (case run_events L this req body es of
        (acts', t) \<Rightarrow> (Fail (JError (error_message m)) # acts', t))"

text \<open>The loop of lines 162-167 over the properties of \<^verbatim>\<open>options.loginParams\<close>.\<close>

fun add_login_params ::
  "(string \<times> jsval) list \<Rightarrow> (string \<times> jsval) list \<Rightarrow> (string \<times> jsval) list" where
  "add_login_params q [] = q"
| "add_login_params q ((property, loginParam) # ps) =
     add_login_params (if truthy loginParam then obj_set q property loginParam else q) ps"

definition empty_url :: url_obj where
  "empty_url =
     \<lparr>protocol = None, slashes = False, auth = None, host = None, port = None,
      hostname = None, hash = None, search = None, query = [], pathname = None,
      href = None\<rparr>"

text \<open>\<^verbatim>\<open>this.parsed.pathname + _validateUri\<close>: a \<^verbatim>\<open>null\<close> pathname concatenates as text.\<close>

definition validate_pathname :: "strategy \<Rightarrow> string" where
  "validate_pathname this =
     (case pathname (parsed this) of None \<Rightarrow> ''null'' | Some p \<Rightarrow> p)
       @ str_or (validateURL this) (s_validateUri this)"

definition soap_envelope :: "string \<Rightarrow> string \<Rightarrow> string \<Rightarrow> string" where
  "soap_envelope requestId issueInstant ticket =
     ''<SOAP-ENV:Envelope xmlns:SOAP-ENV=\"http://schemas.xmlsoap.org/soap/envelope/\"><SOAP-ENV:Header/><SOAP-ENV:Body><samlp:Request xmlns:samlp=\"urn:oasis:names:tc:SAML:1.0:protocol\" MajorVersion=\"1\" MinorVersion=\"1\" RequestID=\"''
       @ requestId @ ''\" IssueInstant=\"'' @ issueInstant
       @ ''\"><samlp:AssertionArtifact>'' @ ticket
       @ ''</samlp:AssertionArtifact></samlp:Request></SOAP-ENV:Body></SOAP-ENV:Envelope>''"

text \<open>\<^verbatim>\<open>url.parse(req.url, true).query.ticket\<close>, line 156.\<close>

definition ticket_of :: "node_lib \<Rightarrow> request \<Rightarrow> jsval" where
  "ticket_of L req =
     (case map_of (query (url_parse L (url req))) ''ticket'' of
        None \<Rightarrow> JUndefined | Some t \<Rightarrow> t)"

definition authenticate ::
  "node_lib \<Rightarrow> strategy \<Rightarrow> request \<Rightarrow> (string \<times> jsval) list \<Rightarrow> attempt_env \<Rightarrow> attempt" where
  "authenticate L this req loginParams env =
     (if truthy (relayState req) then
        \<lparr>signals = [Logout,
                    Redirect (ssoBase this @ ''/logout?_eventId=next&RelayState=''
                              @ to_string (relayState req))],
         requests = [], thrown = None\<rparr>
      else
        (case service L this req of
           Inl e \<Rightarrow> \<lparr>signals = [], requests = [], thrown = Some e\<rparr>
         | Inr svc \<Rightarrow>
            (let ticket = ticket_of L req
             in if \<not> truthy ticket then
                  (let redirectURL = url_parse L (ssoBase this @ ''/login'');
                       q = obj_set (query redirectURL) ''service'' (JStr svc);
                       q = add_login_params q loginParams
                   in \<lparr>signals = [Redirect (url_format L (redirectURL\<lparr>query := q\<rparr>))],
                       requests = [], thrown = None\<rparr>)
                else
                  (let request =
                         (if useSaml this then
                            \<lparr>req_client = client this, req_method = ''POST'',
                             req_host = hostname (parsed this), req_port = port (parsed this),
                             req_path = url_format L
                               (empty_url\<lparr>pathname := Some (validate_pathname this),
                                           query := [(''TARGET'', JStr svc)]\<rparr>),
                             req_body = Some (soap_envelope (uuid env) (now env)
                                               (util_format_s L ticket))\<rparr>
                          else
                            \<lparr>req_client = client this, req_method = ''GET'',
                             req_host = hostname (parsed this), req_port = port (parsed this),
                             req_path = url_format L
                               (empty_url\<lparr>pathname := Some (validate_pathname this),
                                           query := [(''ticket'', ticket),
                                                     (''service'', JStr svc)]\<rparr>),
                             req_body = None\<rparr>)
                   in case run_events L this req [] (events env) of
                        (acts, t) \<Rightarrow> \<lparr>signals = acts, requests = [request], thrown = t\<rparr>))))"

section \<open>Counting outcomes\<close>




section \<open>Example inputs\<close>

text \<open>A request for \<^verbatim>\<open>/page?ticket=ST-1&a=1\<close>.\<close>

definition example_req :: request where
  "example_req =
     \<lparr>originalUrl = Some ''/page?ticket=ST-1&a=1'', url = ''/page?ticket=ST-1&a=1'',
      relayState = JUndefined\<rparr>"

text \<open>A request for \<^verbatim>\<open>/page\<close>, with no ticket.\<close>

definition example_plain_req :: request where
  "example_plain_req =
     \<lparr>originalUrl = Some ''/page'', url = ''/page'', relayState = JUndefined\<rparr>"

text \<open>
  A verify function that accepts every principal:
  \<^verbatim>\<open>(principal, done) => done(null, {id: principal})\<close>.
\<close>

definition accept_all :: verify_fn where
  "accept_all r p = ([(JNull, JObj [(''id'', p)], JUndefined)], None)"

text \<open>
  A library for the examples: what \<^verbatim>\<open>url.parse\<close>, \<^verbatim>\<open>url.resolve\<close> and
  \<^verbatim>\<open>parseString\<close> answer at the strings the examples use, and \<open>example_format\<close>, which
  writes a URL object as \<^verbatim>\<open>url.format\<close> does for the objects of the examples (no
  \<^verbatim>\<open>auth\<close>, a pathname that needs no escaping).
\<close>

definition example_sso :: url_obj where
  "example_sso =
     empty_url\<lparr>protocol := Some ''https:'', slashes := True,
               host := Some ''cas.example.org'', hostname := Some ''cas.example.org'',
               search := Some [], pathname := Some ''/cas'',
               href := Some ''https://cas.example.org/cas''\<rparr>"

definition example_login :: url_obj where
  "example_login =
     example_sso\<lparr>pathname := Some ''/cas/login'',
                 href := Some ''https://cas.example.org/cas/login''\<rparr>"

definition example_page :: url_obj where
  "example_page =
     empty_url\<lparr>search := Some ''?ticket=ST-1&a=1'',
               query := [(''ticket'', JStr ''ST-1''), (''a'', JStr ''1'')],
               pathname := Some ''/page'', href := Some ''/page?ticket=ST-1&a=1''\<rparr>"

definition example_resolved :: url_obj where
  "example_resolved =
     example_page\<lparr>protocol := Some ''https:'', slashes := True,
                  host := Some ''app.example.org'', hostname := Some ''app.example.org'',
                  href := Some ''https://app.example.org/page?ticket=ST-1&a=1''\<rparr>"

definition example_plain :: url_obj where
  "example_plain =
     empty_url\<lparr>search := Some [], pathname := Some ''/page'', href := Some ''/page''\<rparr>"

definition example_plain_resolved :: url_obj where
  "example_plain_resolved =
     example_plain\<lparr>protocol := Some ''https:'', slashes := True,
                   host := Some ''app.example.org'', hostname := Some ''app.example.org'',
                   href := Some ''https://app.example.org/page''\<rparr>"

text \<open>The same page reached with the ticket \<^verbatim>\<open>ST-2\<close>, and with no ticket.\<close>

definition example_resolved_other_ticket :: url_obj where
  "example_resolved_other_ticket =
     example_resolved\<lparr>search := Some ''?ticket=ST-2&a=1'',
                      query := [(''ticket'', JStr ''ST-2''), (''a'', JStr ''1'')],
                      href := Some ''https://app.example.org/page?ticket=ST-2&a=1''\<rparr>"

definition example_canonical :: url_obj where
  "example_canonical =
     example_resolved\<lparr>search := Some ''?a=1'', query := [(''a'', JStr ''1'')],
                      href := Some ''https://app.example.org/page?a=1''\<rparr>"


definition example_parse :: "string \<Rightarrow> url_obj" where
  "example_parse s =
     (if s = ''https://cas.example.org/cas'' then example_sso
      else if s = ''https://cas.example.org/cas/login'' then example_login
      else if s = ''/page?ticket=ST-1&a=1'' then example_page
      else if s = ''https://app.example.org/page?ticket=ST-1&a=1'' then example_resolved
      else if s = ''/page'' then example_plain
      else if s = ''https://app.example.org/page'' then example_plain_resolved
      else if s = ''https://app.example.org/page?ticket=ST-2&a=1''
        then example_resolved_other_ticket
      else if s = ''https://app.example.org/page?a=1'' then example_canonical
      else empty_url)"

text \<open>
  \<^verbatim>\<open>querystring.stringify\<close>: a key and a value are written with every byte escaped as
  \<^verbatim>\<open>%XX\<close> but the letters, the digits and \<^verbatim>\<open>- _ . ! ~ * ' ( )\<close>; an array writes its
  key once for each element; a value that is not a string or a boolean writes as empty.
\<close>

definition qs_unreserved :: "char \<Rightarrow> bool" where
  "qs_unreserved c =
     (c \<in> set ''ABCDEFGHIJKLMNOPQRSTUVWXYZabcdefghijklmnopqrstuvwxyz0123456789-_.!~*()''
      \<or> c = CHR 0x27)"

definition hex_digit :: "nat \<Rightarrow> char" where
  "hex_digit n = ''0123456789ABCDEF'' ! (n mod 16)"

definition qs_escape :: "string \<Rightarrow> string" where
  "qs_escape s =
     concat (map (\<lambda>c. if qs_unreserved c then [c]
                       else [CHR ''%'', hex_digit (of_char c div 16), hex_digit (of_char c)]) s)"

fun qs_primitive :: "jsval \<Rightarrow> string" where
  "qs_primitive (JStr s) = s"
| "qs_primitive (JBool b) = (if b then ''true'' else ''false'')"
| "qs_primitive JUndefined = []"
| "qs_primitive JNull = []"
| "qs_primitive (JObj kvs) = []"
| "qs_primitive (JArr vs) = []"
| "qs_primitive (JError m) = []"
| "qs_primitive JTypeError = []"

definition qs_fields :: "string \<times> jsval \<Rightarrow> string list" where
  "qs_fields kv =
     (case snd kv of
        JArr vs \<Rightarrow> map (\<lambda>v. qs_escape (fst kv) @ ''='' @ qs_escape (qs_primitive v)) vs
      | v \<Rightarrow> [qs_escape (fst kv) @ ''='' @ qs_escape (qs_primitive v)])"

fun join_amp :: "string list \<Rightarrow> string" where
  "join_amp [] = []"
| "join_amp [s] = s"
| "join_amp (s # t # ss) = s @ ''&'' @ join_amp (t # ss)"

definition qs_stringify :: "(string \<times> jsval) list \<Rightarrow> string" where
  "qs_stringify q = join_amp (concat (map qs_fields q))"

definition example_format :: "url_obj \<Rightarrow> string" where
  "example_format u =
     (case protocol u of None \<Rightarrow> [] | Some p \<Rightarrow> p)
     @ (if slashes u then ''//'' else [])
     @ (case host u of None \<Rightarrow> [] | Some h \<Rightarrow> h)
     @ (case pathname u of None \<Rightarrow> [] | Some p \<Rightarrow> p)
     @ (case search u of
          Some (c # s) \<Rightarrow> c # s
        | _ \<Rightarrow> (if qs_stringify (query u) = [] then [] else ''?'' @ qs_stringify (query u)))
     @ (case hash u of None \<Rightarrow> [] | Some h \<Rightarrow> h)"

text \<open>
  The mappings \<^verbatim>\<open>xml2js\<close> builds under \<^verbatim>\<open>xmlParseOpts\<close> for nine response bodies:
  elements of one name under one parent become an array, an element with no attribute and
  no content becomes the empty string, and an empty body parses to \<^verbatim>\<open>null\<close>.  Every
  other body here is not XML.
\<close>

definition xml_failure_with_code :: string where
  "xml_failure_with_code =
     ''<cas:serviceResponse><cas:authenticationFailure code=\"INVALID_TICKET\">Ticket ST-1 not recognized</cas:authenticationFailure></cas:serviceResponse>''"

definition xml_failure_other_attribute :: string where
  "xml_failure_other_attribute =
     ''<cas:serviceResponse><cas:authenticationFailure reason=\"expired\">Ticket ST-1 not recognized</cas:authenticationFailure></cas:serviceResponse>''"

definition xml_failure_no_attribute :: string where
  "xml_failure_no_attribute =
     ''<cas:serviceResponse><cas:authenticationFailure>Ticket ST-1 not recognized</cas:authenticationFailure></cas:serviceResponse>''"

definition xml_two_failures :: string where
  "xml_two_failures =
     ''<cas:serviceResponse><cas:authenticationFailure code=\"INVALID_TICKET\">Ticket ST-1 not recognized</cas:authenticationFailure><cas:authenticationFailure code=\"INVALID_SERVICE\">Service not recognized</cas:authenticationFailure></cas:serviceResponse>''"

definition xml_empty_failure_and_success :: string where
  "xml_empty_failure_and_success =
     ''<cas:serviceResponse><cas:authenticationFailure/><cas:authenticationSuccess><cas:user>bob</cas:user></cas:authenticationSuccess></cas:serviceResponse>''"

definition xml_success :: string where
  "xml_success =
     ''<cas:serviceResponse><cas:authenticationSuccess><cas:user>bob</cas:user></cas:authenticationSuccess></cas:serviceResponse>''"

definition xml_saml_denied :: string where
  "xml_saml_denied =
     ''<Envelope><Body><Response><Status><StatusCode Value=\"samlp:RequestDenied\"/></Status></Response></Body></Envelope>''"

definition xml_saml_no_nameidentifier :: string where
  "xml_saml_no_nameidentifier =
     ''<Envelope><Body><Response><Status><StatusCode Value=\"samlp:Success\"/></Status><Assertion><AttributeStatement><Attribute AttributeName=\"Mail\"><AttributeValue>c@example.org</AttributeValue></Attribute><Attribute AttributeName=\"uid\"><AttributeValue>carol</AttributeValue></Attribute></AttributeStatement><AuthenticationStatement><Subject><SubjectConfirmation>artifact</SubjectConfirmation></Subject></AuthenticationStatement></Assertion></Response></Body></Envelope>''"

definition xml_saml_no_assertion :: string where
  "xml_saml_no_assertion =
     ''<Envelope><Body><Response><Status><StatusCode Value=\"samlp:Success\"/></Status></Response></Body></Envelope>''"

definition saml_response_no_nameidentifier :: jsval where
  "saml_response_no_nameidentifier =
     JObj [(''status'', JObj [(''statuscode'', JObj [(''$'', JObj [(''Value'', JStr ''samlp:Success'')])])]),
           (''assertion'', JObj
              [(''attributestatement'', JObj [(''attribute'', JArr
                  [JObj [(''$'', JObj [(''AttributeName'', JStr ''Mail'')]),
                         (''attributevalue'', JStr ''c@example.org'')],
                   JObj [(''$'', JObj [(''AttributeName'', JStr ''uid'')]),
                         (''attributevalue'', JStr ''carol'')]])]),
               (''authenticationstatement'', JObj
                  [(''subject'', JObj [(''subjectconfirmation'', JStr ''artifact'')])])])]"

definition example_parseString :: "string \<Rightarrow> jsval js" where
  "example_parseString body =
     (if body = xml_failure_with_code then
        Inr (JObj [(''serviceresponse'', JObj [(''authenticationfailure'',
               JObj [(''_'', JStr ''Ticket ST-1 not recognized''),
                     (''$'', JObj [(''code'', JStr ''INVALID_TICKET'')])])])])
      else if body = xml_failure_other_attribute then
        Inr (JObj [(''serviceresponse'', JObj [(''authenticationfailure'',
               JObj [(''_'', JStr ''Ticket ST-1 not recognized''),
                     (''$'', JObj [(''reason'', JStr ''expired'')])])])])
      else if body = xml_failure_no_attribute then
        Inr (JObj [(''serviceresponse'', JObj [(''authenticationfailure'',
               JStr ''Ticket ST-1 not recognized'')])])
      else if body = xml_success then
        Inr (JObj [(''serviceresponse'', JObj [(''authenticationsuccess'',
               JObj [(''user'', JStr ''bob'')])])])
      else if body = xml_saml_denied then
        Inr (JObj [(''envelope'', JObj [(''body'', JObj [(''response'', JObj [(''status'',
               JObj [(''statuscode'', JObj [(''$'',
                 JObj [(''Value'', JStr ''samlp:RequestDenied'')])])])])])])])
      else if body = xml_saml_no_nameidentifier then
        Inr (JObj [(''envelope'', JObj [(''body'', JObj [(''response'',
               saml_response_no_nameidentifier)])])])
      else if body = xml_saml_no_assertion then
        Inr (JObj [(''envelope'', JObj [(''body'', JObj [(''response'', JObj [(''status'',
               JObj [(''statuscode'', JObj [(''$'',
                 JObj [(''Value'', JStr ''samlp:Success'')])])])])])])])
      else if body = xml_two_failures then
        Inr (JObj [(''serviceresponse'', JObj [(''authenticationfailure'', JArr
               [JObj [(''_'', JStr ''Ticket ST-1 not recognized''),
                      (''$'', JObj [(''code'', JStr ''INVALID_TICKET'')])],
                JObj [(''_'', JStr ''Service not recognized''),
                      (''$'', JObj [(''code'', JStr ''INVALID_SERVICE'')])]])])])
      else if body = xml_empty_failure_and_success then
        Inr (JObj [(''serviceresponse'', JObj [(''authenticationfailure'', JStr []),
               (''authenticationsuccess'', JObj [(''user'', JStr ''bob'')])])])
      else if body = [] then Inr JNull
      else Inl (JError ''Non-whitespace before first tag.''))"

definition example_lib :: node_lib where
  "example_lib =
     \<lparr>url_parse = example_parse, url_resolve = (\<lambda>base rel. base @ rel),
      url_format = example_format, parseString = example_parseString,
      util_format_s = to_string\<rparr>"


definition example_options :: options where
  "example_options =
     empty_options\<lparr>opt_ssoBaseURL := Some ''https://cas.example.org/cas'',
                   opt_serverBaseURL := Some ''https://app.example.org''\<rparr>"

text \<open>The strategy \<^verbatim>\<open>new Strategy(example_options, accept_all)\<close> constructs.\<close>

definition example_strategy :: strategy where
  "example_strategy =
     \<lparr>version = ''CAS1.0'', ssoBase = ''https://cas.example.org/cas'',
      serverBaseURL = Some ''https://app.example.org'', validateURL = None,
      serviceURL = None, useSaml = False, parsed = example_sso, client = Https,
      name = ''cas'', s_verify = accept_all, passReqToCallback = False,
      s_validateUri = ''/validate'', s_validate = ValidateCAS1\<rparr>"

section \<open>Auxiliary facts\<close>

lemma split_on_no_sep: "c \<notin> set l \<Longrightarrow> split_on c l = [l]"
  by (induction l) auto

lemma split_on_sep: "c \<notin> set l \<Longrightarrow> split_on c (l @ c # rest) = l # split_on c rest"
  by (induction l) auto

lemma split_on_ne: "split_on c s \<noteq> []"
  by (induction s) (auto split: list.splits)

lemma hd_split_on: "hd (split_on c s) = takeWhile (\<lambda>x. x \<noteq> c) s"
proof (induction s)
  case Nil
  show ?case by simp
next
  case (Cons x xs)
  then show ?case
    using split_on_ne[of c xs] by (cases "split_on c xs") auto
qed

lemma split_on_Cons: "\<exists>l ls. split_on c s = l # ls"
  using split_on_ne[of c s] by (cases "split_on c s") auto

lemma verified_error_eq: "verified_error msg = Error (JError msg)"
  by (simp add: verified_error_def verified_def)

lemma get_path_append:
  "get_path v (ks @ ks') = (case get_path v ks of Inl e \<Rightarrow> Inl e | Inr w \<Rightarrow> get_path w ks')"
  by (induction ks arbitrary: v) (auto split: sum.splits)

lemma get_prop_truthy:
  "get_prop v k = Inr w \<Longrightarrow> w \<noteq> JUndefined \<Longrightarrow> truthy v"
  by (cases v) auto

lemma try_catch_returns: "snd (try_catch m (\<lambda>e. ([a], None))) = None"
  by (cases m) (auto simp: try_catch_def split: option.splits)



lemma example_bodies_distinct:
  "distinct [xml_failure_with_code, xml_failure_other_attribute, xml_failure_no_attribute,
             xml_success, xml_saml_denied, xml_saml_no_nameidentifier, xml_saml_no_assertion,
             [], ''not xml'', xml_two_failures, xml_empty_failure_and_success]"
  by (simp add: xml_failure_with_code_def xml_failure_other_attribute_def
      xml_failure_no_attribute_def xml_success_def xml_saml_denied_def
      xml_saml_no_nameidentifier_def xml_saml_no_assertion_def xml_two_failures_def
      xml_empty_failure_and_success_def)

lemma example_parses:
  "parseString example_lib xml_failure_with_code
     = Inr (JObj [(''serviceresponse'', JObj [(''authenticationfailure'',
               JObj [(''_'', JStr ''Ticket ST-1 not recognized''),
                     (''$'', JObj [(''code'', JStr ''INVALID_TICKET'')])])])])"
  "parseString example_lib xml_failure_other_attribute
     = Inr (JObj [(''serviceresponse'', JObj [(''authenticationfailure'',
               JObj [(''_'', JStr ''Ticket ST-1 not recognized''),
                     (''$'', JObj [(''reason'', JStr ''expired'')])])])])"
  "parseString example_lib xml_failure_no_attribute
     = Inr (JObj [(''serviceresponse'', JObj [(''authenticationfailure'',
               JStr ''Ticket ST-1 not recognized'')])])"
  "parseString example_lib xml_success
     = Inr (JObj [(''serviceresponse'', JObj [(''authenticationsuccess'',
               JObj [(''user'', JStr ''bob'')])])])"
  "parseString example_lib xml_saml_denied
     = Inr (JObj [(''envelope'', JObj [(''body'', JObj [(''response'', JObj [(''status'',
               JObj [(''statuscode'', JObj [(''$'',
                 JObj [(''Value'', JStr ''samlp:RequestDenied'')])])])])])])])"
  "parseString example_lib xml_saml_no_nameidentifier
     = Inr (JObj [(''envelope'', JObj [(''body'', JObj [(''response'',
               saml_response_no_nameidentifier)])])])"
  "parseString example_lib xml_saml_no_assertion
     = Inr (JObj [(''envelope'', JObj [(''body'', JObj [(''response'', JObj [(''status'',
               JObj [(''statuscode'', JObj [(''$'',
                 JObj [(''Value'', JStr ''samlp:Success'')])])])])])])])"
  "parseString example_lib [] = Inr JNull"
  "parseString example_lib ''not xml'' = Inl (JError ''Non-whitespace before first tag.'')"
  "parseString example_lib xml_two_failures
     = Inr (JObj [(''serviceresponse'', JObj [(''authenticationfailure'', JArr
               [JObj [(''_'', JStr ''Ticket ST-1 not recognized''),
                      (''$'', JObj [(''code'', JStr ''INVALID_TICKET'')])],
                JObj [(''_'', JStr ''Service not recognized''),
                      (''$'', JObj [(''code'', JStr ''INVALID_SERVICE'')])]])])])"
  "parseString example_lib xml_empty_failure_and_success
     = Inr (JObj [(''serviceresponse'', JObj [(''authenticationfailure'', JStr []),
               (''authenticationsuccess'', JObj [(''user'', JStr ''bob'')])])])"
  using example_bodies_distinct
  by (auto simp add: example_lib_def example_parseString_def)


lemma run_events_data:
  "run_events L this req body (map Data chunks @ es)
     = run_events L this req (body @ concat chunks) es"
  by (induction chunks arbitrary: body) simp_all

lemma authenticate_validating:
  assumes "\<not> truthy (relayState req)" and "service L this req = Inr svc"
    and "truthy (ticket_of L req)"
  shows "signals (authenticate L this req lp env) = fst (run_events L this req [] (events env))"
    and "thrown (authenticate L this req lp env) = snd (run_events L this req [] (events env))"
    and "length (requests (authenticate L this req lp env)) = 1"
  using assms by (simp_all add: authenticate_def Let_def split: prod.splits)

lemma example_service:
  "service example_lib example_strategy example_req
     = Inr (url_format example_lib
              (example_resolved\<lparr>query := [(''a'', JStr ''1'')], search := None\<rparr>))"
  by (simp add: service_def example_strategy_def example_req_def example_lib_def
      example_parse_def example_resolved_def example_page_def empty_url_def obj_delete_def)

lemma example_ticket: "ticket_of example_lib example_req = JStr ''ST-1''"
  by (simp add: ticket_of_def example_req_def example_lib_def example_parse_def
      example_page_def empty_url_def)

section \<open>Explicit denials\<close>

lemma cas3_failure_code:
  assumes "get_path result [''serviceresponse'', ''authenticationfailure'', ''$'', ''code'']
             = Inr (JStr c)"
  shows "cas3_try p v r result = ([Error (JError (''Authentication failed '' @ c))], None)"
proof -
  obtain sr where sr: "get_prop result ''serviceresponse'' = Inr sr"
    using assms by (auto split: sum.splits)
  obtain f where f: "get_prop sr ''authenticationfailure'' = Inr f"
    using assms sr by (auto split: sum.splits)
  obtain d where d: "get_prop f ''$'' = Inr d"
    using assms sr f by (auto split: sum.splits)
  have c: "get_prop d ''code'' = Inr (JStr c)"
    using assms sr f d by (auto split: sum.splits)
  have "d \<noteq> JUndefined" using c by auto
  then have "truthy f" using d get_prop_truthy by blast
  then show ?thesis
    using sr f d c by (simp add: cas3_try_def bind_js_def verified_error_eq)
qed

lemma saml_status_no_match:
  assumes "get_path result
             [''envelope'', ''body'', ''response'', ''status'', ''statuscode'', ''$'', ''Value'']
             = Inr (JStr s)"
    and "\<not> ends_with ''Success'' s"
  shows "saml_try p v r result = ([Error (JError ''Authentication failed'')], None)"
proof -
  have split: "[''envelope'', ''body'', ''response'', ''status'', ''statuscode'', ''$'', ''Value'']
     = [''envelope'', ''body'', ''response''] @ [''status'', ''statuscode'', ''$'', ''Value'']"
    by simp
  obtain response where r1: "get_path result [''envelope'', ''body'', ''response''] = Inr response"
    and r2: "get_path response [''status'', ''statuscode'', ''$'', ''Value''] = Inr (JStr s)"
    using assms(1) unfolding split get_path_append by (auto split: sum.splits)
  show ?thesis
    unfolding saml_try_def using r1 r2 assms(2)
    by (simp add: bind_js_def match_success_def verified_error_eq)
qed

text \<open>
  Claim C1, as amended.  An explicit denial by the server reaches \<^verbatim>\<open>verified\<close> as its first
  argument, so it is signalled with \<^verbatim>\<open>this.error\<close>, never with \<^verbatim>\<open>this.fail\<close>: a CAS 1.0
  body whose first line is \<^verbatim>\<open>no\<close> and a SAML status value that does not end in
  \<^verbatim>\<open>Success\<close> give the error \<^verbatim>\<open>Authentication failed\<close>, and a CAS 3.0
  \<^verbatim>\<open>authenticationfailure\<close> node with a \<^verbatim>\<open>code\<close> attribute gives that message with the
  code appended.
\<close>

theorem explicit_denial_signals_error:
  "(validate_cas1 p v r ''no'' = ([Error (JError ''Authentication failed'')], None) \<and>
    validate_cas1 p v r (''no'' @ newline # rest)
      = ([Error (JError ''Authentication failed'')], None)) \<and>
   (parseString L body = Inr result \<longrightarrow>
    get_path result [''serviceresponse'', ''authenticationfailure'', ''$'', ''code'']
      = Inr (JStr c) \<longrightarrow>
    validate_cas3 L p v r body
      = ([Error (JError (''Authentication failed '' @ c))], None)) \<and>
   (parseString L body = Inr result \<longrightarrow>
    get_path result
      [''envelope'', ''body'', ''response'', ''status'', ''statuscode'', ''$'', ''Value'']
      = Inr (JStr s) \<longrightarrow>
    \<not> ends_with ''Success'' s \<longrightarrow>
    validate_saml L p v r body = ([Error (JError ''Authentication failed'')], None))"
proof (intro conjI impI)
  have n: "newline \<notin> set ''no''" by (simp add: newline_def)
  show "validate_cas1 p v r ''no'' = ([Error (JError ''Authentication failed'')], None)"
    using split_on_no_sep[OF n]
    by (simp add: validate_cas1_def verified_error_eq del: split_on.simps)
  show "validate_cas1 p v r (''no'' @ newline # rest)
          = ([Error (JError ''Authentication failed'')], None)"
    using split_on_sep[OF n, of rest]
    by (simp add: validate_cas1_def verified_error_eq del: split_on.simps)
next
  assume "parseString L body = Inr result"
    and "get_path result [''serviceresponse'', ''authenticationfailure'', ''$'', ''code'']
           = Inr (JStr c)"
  then show "validate_cas3 L p v r body
               = ([Error (JError (''Authentication failed '' @ c))], None)"
    by (simp add: validate_cas3_def cas3_failure_code try_catch_def del: get_path.simps)
next
  assume "parseString L body = Inr result"
    and "get_path result
           [''envelope'', ''body'', ''response'', ''status'', ''statuscode'', ''$'', ''Value'']
           = Inr (JStr s)"
    and "\<not> ends_with ''Success'' s"
  then show "validate_saml L p v r body = ([Error (JError ''Authentication failed'')], None)"
    by (simp add: validate_saml_def saml_status_no_match try_catch_def del: get_path.simps)
qed

text \<open>
  The three denials at example responses: \<^verbatim>\<open>"no\n"\<close>, a CAS 3.0 failure with code
  \<^verbatim>\<open>INVALID_TICKET\<close>, a SAML status \<^verbatim>\<open>samlp:RequestDenied\<close>.
\<close>

theorem explicit_denial_signals_error_witness:
  "validate_cas1 False accept_all example_req (''no'' @ [newline])
     = ([Error (JError ''Authentication failed'')], None) \<and>
   validate_cas3 example_lib False accept_all example_req xml_failure_with_code
     = ([Error (JError ''Authentication failed INVALID_TICKET'')], None) \<and>
   validate_saml example_lib False accept_all example_req xml_saml_denied
     = ([Error (JError ''Authentication failed'')], None)"
proof -
  note t1 = explicit_denial_signals_error
    [of False accept_all example_req "[]" example_lib xml_failure_with_code _
        "''INVALID_TICKET''" "''x''"]
  note t2 = explicit_denial_signals_error
    [of False accept_all example_req "[]" example_lib xml_saml_denied _
        "''x''" "''samlp:RequestDenied''"]
  show ?thesis
    using t1 t2 example_parses(1,5) by (simp add: ends_with_def)
qed

text \<open>
  Claim C1 as stated fails: the denial \<^verbatim>\<open>"no\n"\<close> is signalled as an error, not as a
  failure.
\<close>

theorem explicit_denial_counterexample:
  "validate_cas1 False accept_all example_req (''no'' @ [newline])
     = ([Error (JError ''Authentication failed'')], None)"
  by (simp add: validate_cas1_def newline_def verified_error_eq)

section \<open>The CAS 1.0 validator\<close>

text \<open>
  Claim C2, as amended.  A body either has no newline, and then it is its own first line,
  or it is a first line \<open>l\<close>, a newline and a rest.  A first line \<^verbatim>\<open>no\<close> signals the error
  \<^verbatim>\<open>Authentication failed\<close>.  A first line \<^verbatim>\<open>yes\<close> followed by a newline calls the
  verify function with the second line, the text of the rest up to its first newline, exactly
  as received (it is not trimmed, and it may be empty); the verify function's answer then
  decides the outcome.  Every other body, the empty one and a lone \<^verbatim>\<open>yes\<close> among them,
  signals the error \<^verbatim>\<open>The response from the server was bad\<close>.
\<close>

theorem validate_cas1_shapes:
  "newline \<notin> set l \<Longrightarrow>
     validate_cas1 p v r l =
       (if l = ''no'' then ([Error (JError ''Authentication failed'')], None)
        else ([Error (JError ''The response from the server was bad'')], None)) \<and>
     validate_cas1 p v r (l @ newline # rest) =
       (if l = ''no'' then ([Error (JError ''Authentication failed'')], None)
        else if l = ''yes'' then
          call_verify p v r (JStr (takeWhile (\<lambda>c. c \<noteq> newline) rest))
        else ([Error (JError ''The response from the server was bad'')], None))"
proof -
  assume l: "newline \<notin> set l"
  obtain a as where s: "split_on newline rest = a # as"
    using split_on_Cons by blast
  have a: "a = takeWhile (\<lambda>c. c \<noteq> newline) rest"
    using hd_split_on[of newline rest] s by simp
  show ?thesis
    using l a s
    by (simp add: validate_cas1_def split_on_no_sep split_on_sep verified_error_eq Let_def)
qed

text \<open>
  At \<^verbatim>\<open>"yes\nalice\n"\<close> the accepting verify function gets \<^verbatim>\<open>alice\<close>; a lone
  \<^verbatim>\<open>yes\<close> is a bad response.
\<close>

theorem validate_cas1_shapes_witness:
  "newline \<notin> set ''yes'' \<and>
   validate_cas1 False accept_all example_req (''yes'' @ newline # ''alice'' @ [newline])
     = ([Success (JObj [(''id'', JStr ''alice'')]) JUndefined], None) \<and>
   validate_cas1 False accept_all example_req ''yes''
     = ([Error (JError ''The response from the server was bad'')], None)"
  using validate_cas1_shapes [of "''yes''" False accept_all example_req "''alice'' @ [newline]"]
  by (simp add: newline_def call_verify_def accept_all_def verified_def)

text \<open>
  Claim C2 as stated fails: the body \<^verbatim>\<open>"yes\n"\<close> is not a malformed response, the
  verify function is called with the empty principal; and the body \<^verbatim>\<open>"yes\n alice \n"\<close>
  hands over \<^verbatim>\<open>" alice "\<close> with its blanks.
\<close>

theorem validate_cas1_yes_newline_counterexample:
  "validate_cas1 False accept_all example_req (''yes'' @ [newline])
     = ([Success (JObj [(''id'', JStr [])]) JUndefined], None) \<and>
   validate_cas1 False accept_all example_req
       (''yes'' @ [newline] @ '' alice '' @ [newline])
     = ([Success (JObj [(''id'', JStr '' alice '')]) JUndefined], None)"
  by (simp add: validate_cas1_def newline_def call_verify_def accept_all_def verified_def)

section \<open>Transport errors\<close>

text \<open>
  Claim C3, as amended.  In an attempt that validates a ticket (no relay state, a service
  URL, a ticket in the request), when the transport delivers some data and then the error
  event of the request, the one signal is \<^verbatim>\<open>this.fail\<close> with an Error object that carries
  the transport's message, or \<^verbatim>\<open>Unknown error\<close> when it has none.  It is a failure, not
  an error, and so differs from a denial by the server, which is signalled as an error.
  One request was sent and nothing is thrown: there is no retry.
\<close>

theorem transport_error_signals_fail:
  "\<not> truthy (relayState req) \<longrightarrow> service L this req = Inr svc \<longrightarrow>
   truthy (ticket_of L req) \<longrightarrow> events env = map Data chunks @ [ReqError m] \<longrightarrow>
     signals (authenticate L this req lp env)
       = [Fail (JError (case m of None \<Rightarrow> ''Unknown error''
                        | Some s \<Rightarrow> if s = [] then ''Unknown error'' else s))] \<and>
     thrown (authenticate L this req lp env) = None \<and>
     length (requests (authenticate L this req lp env)) = 1"
  by (simp add: authenticate_validating run_events_data error_message_def str_or_def)

text \<open>A connection reset after the first bytes of the response.\<close>

theorem transport_error_signals_fail_witness:
  "signals (authenticate example_lib example_strategy example_req []
      \<lparr>uuid = ''id-1'', now = ''2024-01-01T00:00:00.000Z'',
       events = [Data ''ye'', ReqError (Some ''read ECONNRESET'')]\<rparr>)
     = [Fail (JError ''read ECONNRESET'')] \<and>
   length (requests (authenticate example_lib example_strategy example_req []
      \<lparr>uuid = ''id-1'', now = ''2024-01-01T00:00:00.000Z'',
       events = [Data ''ye'', ReqError (Some ''read ECONNRESET'')]\<rparr>)) = 1"
  using transport_error_signals_fail
    [of example_req example_lib example_strategy _
        "\<lparr>uuid = ''id-1'', now = ''2024-01-01T00:00:00.000Z'',
          events = [Data ''ye'', ReqError (Some ''read ECONNRESET'')]\<rparr>"
        "[''ye'']" "Some ''read ECONNRESET''" "[]"]
    example_service example_ticket
  by (simp add: example_req_def)

text \<open>
  Claim C3 as stated fails: a refused connection is signalled with \<^verbatim>\<open>this.fail\<close>, not
  with \<^verbatim>\<open>this.error\<close>.
\<close>

theorem transport_error_counterexample:
  "signals (authenticate example_lib example_strategy example_req []
      \<lparr>uuid = ''id-1'', now = ''2024-01-01T00:00:00.000Z'',
       events = [ReqError (Some ''connect ECONNREFUSED'')]\<rparr>)
     = [Fail (JError ''connect ECONNREFUSED'')]"
  using example_service example_ticket
  by (simp add: authenticate_validating(1)[where svc="url_format example_lib
              (example_resolved\<lparr>query := [(''a'', JStr ''1'')], search := None\<rparr>)"]
       example_req_def error_message_def str_or_def)

section \<open>The CAS 3.0 validator\<close>

lemma validate_cas3_parsed:
  "parseString L body = Inr result \<Longrightarrow>
     validate_cas3 L p v r body
       = try_catch (cas3_try p v r result)
           (\<lambda>e. ([Error (JError ''Authentication failed'')], None))"
  by (simp add: validate_cas3_def verified_error_eq)

lemma cas3_try_no_root:
  "get_path result [''serviceresponse'', ''authenticationfailure''] = Inl e \<Longrightarrow>
     cas3_try p v r result = ([], Some e)"
  by (simp add: cas3_try_def bind_js_def del: get_path.simps)

lemma cas3_success_readable:
  "get_path result [''serviceresponse'', ''authenticationfailure''] = Inr failure \<Longrightarrow>
     \<exists>success. get_path result [''serviceresponse'', ''authenticationsuccess''] = Inr success"
  by (cases "get_prop result ''serviceresponse''"; cases "projr (get_prop result ''serviceresponse'')")
     (auto split: sum.splits)

lemma cas3_try_failure:
  assumes "get_path result [''serviceresponse'', ''authenticationfailure''] = Inr failure"
    and "truthy failure"
  shows "cas3_try p v r result
     = (case get_path failure [''$'', ''code''] of
          Inl e \<Rightarrow> ([], Some e)
        | Inr code \<Rightarrow>
            ([Error (JError (''Authentication failed '' @ to_string code))], None))"
proof -
  have split: "[''serviceresponse'', ''authenticationfailure'', ''$'', ''code'']
      = [''serviceresponse'', ''authenticationfailure''] @ [''$'', ''code'']"
    by simp
  have "get_path result [''serviceresponse'', ''authenticationfailure'', ''$'', ''code'']
      = get_path failure [''$'', ''code'']"
    unfolding split get_path_append using assms(1) by (simp del: get_path.simps)
  then show ?thesis
    using assms
    by (simp add: cas3_try_def bind_js_def verified_error_eq del: get_path.simps
          split: sum.splits)
qed

lemma cas3_try_no_failure:
  assumes "get_path result [''serviceresponse'', ''authenticationfailure''] = Inr failure"
    and "\<not> truthy failure"
    and "get_path result [''serviceresponse'', ''authenticationsuccess''] = Inr success"
  shows "cas3_try p v r result
     = (if truthy success then call_verify p v r success
        else ([Error (JError ''Authentication failed'')], None))"
  using assms
  by (simp add: cas3_try_def bind_js_def verified_error_eq del: get_path.simps)

text \<open>
  Claim C4, as amended.  What the CAS 3.0 validator does on every body; it never lets an
  exception out.
  \<^item> When the XML parser reports an error, the error is
    \<^verbatim>\<open>The response from the server was bad\<close>.  The empty body is not such a case: it parses
    to \<^verbatim>\<open>null\<close> and falls under the next one.
  \<^item> When \<^verbatim>\<open>result.serviceresponse.authenticationfailure\<close> cannot be read (no result, no
    \<^verbatim>\<open>serviceresponse\<close> root), the error is \<^verbatim>\<open>Authentication failed\<close>.
  \<^item> When that value is truthy, the outcome is an error and the verify function is not
    called: \<^verbatim>\<open>Authentication failed\<close> followed by the \<^verbatim>\<open>code\<close> attribute as a string when
    the node has an attribute object, and the plain \<^verbatim>\<open>Authentication failed\<close> when it has
    none, as for several failure nodes, which parse to an array.
  \<^item> When that value is falsy (no failure node, or an empty one), the
    \<^verbatim>\<open>authenticationsuccess\<close> value can be read; if it is truthy the verify function is
    called with it, unchanged, its calls are the outcome, and an exception it throws adds
    the error \<^verbatim>\<open>Authentication failed\<close>; if it is falsy the error is
    \<^verbatim>\<open>Authentication failed\<close>.
\<close>

theorem validate_cas3_every_body:
  "snd (validate_cas3 L p v r body) = None \<and>
   (parseString L body = Inl err \<longrightarrow>
      validate_cas3 L p v r body
        = ([Error (JError ''The response from the server was bad'')], None)) \<and>
   (parseString L body = Inr result \<longrightarrow>
      (get_path result [''serviceresponse'', ''authenticationfailure''] = Inl e \<longrightarrow>
         validate_cas3 L p v r body = ([Error (JError ''Authentication failed'')], None)) \<and>
      (get_path result [''serviceresponse'', ''authenticationfailure''] = Inr failure \<longrightarrow>
         (truthy failure \<longrightarrow>
            (get_path failure [''$'', ''code''] = Inl e \<longrightarrow>
               validate_cas3 L p v r body
                 = ([Error (JError ''Authentication failed'')], None)) \<and>
            (get_path failure [''$'', ''code''] = Inr code \<longrightarrow>
               validate_cas3 L p v r body
                 = ([Error (JError (''Authentication failed '' @ to_string code))], None))) \<and>
         (\<not> truthy failure \<longrightarrow>
            (\<exists>success.
               get_path result [''serviceresponse'', ''authenticationsuccess''] = Inr success) \<and>
            (get_path result [''serviceresponse'', ''authenticationsuccess''] = Inr success \<longrightarrow>
               (truthy success \<longrightarrow>
                  v (if p then Some r else None) success = (calls, raised) \<longrightarrow>
                  validate_cas3 L p v r body
                    = (map verified calls
                       @ (case raised of None \<Rightarrow> []
                          | Some x \<Rightarrow> [Error (JError ''Authentication failed'')]), None)) \<and>
               (\<not> truthy success \<longrightarrow>
                  validate_cas3 L p v r body
                    = ([Error (JError ''Authentication failed'')], None))))))"
proof (intro conjI impI)
  show "snd (validate_cas3 L p v r body) = None"
  proof (cases "parseString L body")
    case (Inl x)
    then show ?thesis by (simp add: validate_cas3_def)
  next
    case (Inr res)
    then show ?thesis by (simp add: validate_cas3_parsed try_catch_returns)
  qed
next
  assume "parseString L body = Inl err"
  then show "validate_cas3 L p v r body
        = ([Error (JError ''The response from the server was bad'')], None)"
    by (simp add: validate_cas3_def verified_error_eq)
next
  assume "parseString L body = Inr result"
    and "get_path result [''serviceresponse'', ''authenticationfailure''] = Inl e"
  then show "validate_cas3 L p v r body = ([Error (JError ''Authentication failed'')], None)"
    by (simp add: validate_cas3_parsed cas3_try_no_root try_catch_def del: get_path.simps)
next
  assume "parseString L body = Inr result"
    and "get_path result [''serviceresponse'', ''authenticationfailure''] = Inr failure"
    and "truthy failure" and "get_path failure [''$'', ''code''] = Inl e"
  then show "validate_cas3 L p v r body = ([Error (JError ''Authentication failed'')], None)"
    by (simp add: validate_cas3_parsed cas3_try_failure try_catch_def del: get_path.simps)
next
  assume "parseString L body = Inr result"
    and "get_path result [''serviceresponse'', ''authenticationfailure''] = Inr failure"
    and "truthy failure" and "get_path failure [''$'', ''code''] = Inr code"
  then show "validate_cas3 L p v r body
                 = ([Error (JError (''Authentication failed '' @ to_string code))], None)"
    by (simp add: validate_cas3_parsed cas3_try_failure try_catch_def del: get_path.simps)
next
  assume "get_path result [''serviceresponse'', ''authenticationfailure''] = Inr failure"
  then show "\<exists>success.
      get_path result [''serviceresponse'', ''authenticationsuccess''] = Inr success"
    by (rule cas3_success_readable)
next
  assume "parseString L body = Inr result"
    and "get_path result [''serviceresponse'', ''authenticationfailure''] = Inr failure"
    and "\<not> truthy failure"
    and "get_path result [''serviceresponse'', ''authenticationsuccess''] = Inr success"
    and "truthy success"
    and "v (if p then Some r else None) success = (calls, raised)"
  then show "validate_cas3 L p v r body
                    = (map verified calls
                       @ (case raised of None \<Rightarrow> []
                          | Some x \<Rightarrow> [Error (JError ''Authentication failed'')]), None)"
    by (simp add: validate_cas3_parsed cas3_try_no_failure call_verify_def try_catch_def
          del: get_path.simps split: option.splits)
next
  assume "parseString L body = Inr result"
    and "get_path result [''serviceresponse'', ''authenticationfailure''] = Inr failure"
    and "\<not> truthy failure"
    and "get_path result [''serviceresponse'', ''authenticationsuccess''] = Inr success"
    and "\<not> truthy success"
  then show "validate_cas3 L p v r body = ([Error (JError ''Authentication failed'')], None)"
    by (simp add: validate_cas3_parsed cas3_try_no_failure try_catch_def del: get_path.simps)
qed

text \<open>
  A body that is not XML, the empty body, a failure with code \<^verbatim>\<open>INVALID_TICKET\<close>, two
  failure nodes, and an empty failure node beside a success for \<^verbatim>\<open>bob\<close>.
\<close>

theorem validate_cas3_every_body_witness:
  "snd (validate_cas3 example_lib False accept_all example_req xml_success) = None \<and>
   validate_cas3 example_lib False accept_all example_req ''not xml''
     = ([Error (JError ''The response from the server was bad'')], None) \<and>
   validate_cas3 example_lib False accept_all example_req []
     = ([Error (JError ''Authentication failed'')], None) \<and>
   validate_cas3 example_lib False accept_all example_req xml_failure_with_code
     = ([Error (JError ''Authentication failed INVALID_TICKET'')], None) \<and>
   validate_cas3 example_lib False accept_all example_req xml_two_failures
     = ([Error (JError ''Authentication failed'')], None) \<and>
   validate_cas3 example_lib False accept_all example_req xml_empty_failure_and_success
     = ([Success (JObj [(''id'', JObj [(''user'', JStr ''bob'')])]) JUndefined], None)"
proof -
  note t = validate_cas3_every_body
    [where L = example_lib and p = False and v = accept_all and r = example_req]
  note t1 = t [where body = "''not xml''"]
  note t2 = t [where body = "[]" and result = JNull and e = JTypeError]
  note t3 = t [where body = xml_failure_with_code
      and failure = "JObj [(''_'', JStr ''Ticket ST-1 not recognized''),
                           (''$'', JObj [(''code'', JStr ''INVALID_TICKET'')])]"
      and code = "JStr ''INVALID_TICKET''"]
  note t4 = t [where body = xml_two_failures
      and failure = "JArr [JObj [(''_'', JStr ''Ticket ST-1 not recognized''),
                                 (''$'', JObj [(''code'', JStr ''INVALID_TICKET'')])],
                           JObj [(''_'', JStr ''Service not recognized''),
                                 (''$'', JObj [(''code'', JStr ''INVALID_SERVICE'')])]]"
      and e = JTypeError]
  note t5 = t [where body = xml_empty_failure_and_success and failure = "JStr []"
      and success = "JObj [(''user'', JStr ''bob'')]"
      and calls = "[(JNull, JObj [(''id'', JObj [(''user'', JStr ''bob'')])], JUndefined)]"
      and raised = None]
  note t6 = t [where body = xml_success]
  show ?thesis
    using t1 t2 t3 t4 t5 t6 example_parses(1,8,9,10,11)
    by (simp add: accept_all_def verified_def)
qed

text \<open>
  Claim C4 as stated fails three times.  Two failure nodes, each with a code, give the plain
  error with no code.  An empty failure node beside a success node gives a success.  The
  empty body, which is not well-formed XML, gives \<^verbatim>\<open>Authentication failed\<close> and not the
  bad-response error.
\<close>

theorem validate_cas3_counterexample:
  "validate_cas3 example_lib False accept_all example_req xml_two_failures
     = ([Error (JError ''Authentication failed'')], None) \<and>
   validate_cas3 example_lib False accept_all example_req xml_empty_failure_and_success
     = ([Success (JObj [(''id'', JObj [(''user'', JStr ''bob'')])]) JUndefined], None) \<and>
   validate_cas3 example_lib False accept_all example_req []
     = ([Error (JError ''Authentication failed'')], None)"
  by (simp add: validate_cas3_def example_parses(8,10,11) cas3_try_def bind_js_def
      try_catch_def verified_error_eq call_verify_def accept_all_def verified_def)

section \<open>The SAML validator\<close>













section \<open>Outcomes per attempt\<close>













section \<open>The service URL\<close>












section \<open>Construction\<close>

text \<open>
  Claim C8, as amended.  Construction throws when no verify function is supplied.  It
  throws when the version given is a non-empty string other than \<^verbatim>\<open>CAS1.0\<close> and
  \<^verbatim>\<open>CAS3.0\<close>, with the error \<^verbatim>\<open>unsupported version\<close> once the verify function and the
  SSO base URL are there.  A version that is not given, or is the empty string, is not an
  error: given a verify function and an SSO base URL, the strategy is constructed with
  version \<^verbatim>\<open>CAS1.0\<close>.  (Without an SSO base URL \<^verbatim>\<open>url.parse\<close> throws a TypeError,
  whatever the version.)  Every constructed strategy has version \<^verbatim>\<open>CAS1.0\<close> or
  \<^verbatim>\<open>CAS3.0\<close>.
\<close>

theorem new_Strategy_checks:
  "new_Strategy L (ArgOptions opts) None
     = Inl (JError ''cas authentication strategy requires a verify function'') \<and>
   new_Strategy L ArgUndefined None
     = Inl (JError ''cas authentication strategy requires a verify function'') \<and>
   (opt_version opts = Some ver \<longrightarrow> ver \<noteq> [] \<longrightarrow> ver \<noteq> ''CAS1.0'' \<longrightarrow> ver \<noteq> ''CAS3.0'' \<longrightarrow>
      (\<exists>e. new_Strategy L (ArgOptions opts) verify = Inl e) \<and>
      (opt_ssoBaseURL opts = Some sso \<longrightarrow>
         new_Strategy L (ArgOptions opts) (Some vf)
           = Inl (JError (''unsupported version '' @ ver)))) \<and>
   ((opt_version opts = None \<or> opt_version opts = Some []) \<longrightarrow>
      opt_ssoBaseURL opts = Some sso \<longrightarrow>
      (\<exists>this. new_Strategy L (ArgOptions opts) (Some vf) = Inr this \<and>
              version this = ''CAS1.0'')) \<and>
   (new_Strategy L arg verify = Inr this \<longrightarrow>
      version this = ''CAS1.0'' \<or> version this = ''CAS3.0'')"
  by (auto simp: new_Strategy_def str_or_def Let_def split: option.splits ctor_arg.splits if_splits)

text \<open>The example strategy is what the constructor builds from the example options.\<close>

lemma example_constructed:
  "new_Strategy example_lib (ArgOptions example_options) (Some accept_all) = Inr example_strategy"
  by (simp add: new_Strategy_def example_options_def empty_options_def str_or_def
      example_lib_def example_parse_def example_sso_def empty_url_def example_strategy_def)

text \<open>
  Version \<^verbatim>\<open>CAS2.0\<close> is refused; the example options, which give no version, construct
  the example strategy.
\<close>

theorem new_Strategy_checks_witness:
  "new_Strategy example_lib (ArgOptions (example_options\<lparr>opt_version := Some ''CAS2.0''\<rparr>))
     (Some accept_all) = Inl (JError ''unsupported version CAS2.0'') \<and>
   (\<exists>this. new_Strategy example_lib (ArgOptions example_options) (Some accept_all) = Inr this \<and>
           version this = ''CAS1.0'') \<and>
   (version example_strategy = ''CAS1.0'' \<or> version example_strategy = ''CAS3.0'')"
proof -
  note t1 = new_Strategy_checks
    [of example_lib "example_options\<lparr>opt_version := Some ''CAS2.0''\<rparr>" "''CAS2.0''"
        "Some accept_all" "''https://cas.example.org/cas''" accept_all]
  note t2 = new_Strategy_checks
    [of example_lib example_options _ "Some accept_all" "''https://cas.example.org/cas''"
        accept_all "ArgOptions example_options" example_strategy]
  show ?thesis
    using t1 t2 example_constructed
    by (simp add: example_options_def empty_options_def)
qed

text \<open>
  Claim C8 as stated fails: with the empty string as its version, which is neither
  \<^verbatim>\<open>CAS1.0\<close> nor \<^verbatim>\<open>CAS3.0\<close>, and with no version at all, construction succeeds.
\<close>

theorem new_Strategy_default_counterexample:
  "new_Strategy example_lib (ArgOptions (example_options\<lparr>opt_version := Some []\<rparr>))
     (Some accept_all) = Inr example_strategy \<and>
   new_Strategy example_lib (ArgOptions example_options) (Some accept_all)
     = Inr example_strategy"
  by (simp add: new_Strategy_def example_options_def empty_options_def str_or_def
      example_lib_def example_parse_def example_sso_def empty_url_def example_strategy_def)

section \<open>The login redirect\<close>

lemma map_of_obj_set: "map_of (obj_set q k v) = (map_of q)(k \<mapsto> v)"
  by (induction q k v rule: obj_set.induct) auto

lemma map_of_add_login_params:
  "map_of (add_login_params q ps) k
     = (case map_of (rev (filter (\<lambda>kv. truthy (snd kv)) ps)) k of
          Some v \<Rightarrow> Some v | None \<Rightarrow> map_of q k)"
proof (induction ps arbitrary: q)
  case Nil
  show ?case by simp
next
  case (Cons p ps)
  obtain property loginParam where p: "p = (property, loginParam)" by (cases p)
  show ?case
    using Cons[of "if truthy loginParam then obj_set q property loginParam else q"]
    by (auto simp: p map_of_obj_set map_add_def split: option.splits)
qed

text \<open>
  Claim C9, as amended.  For a request with no relay state and no ticket, the one signal is
  a redirect to what \<^verbatim>\<open>url.format\<close> writes for the parsed login URL
  \<^verbatim>\<open>ssoBase + "/login"\<close> with a new query \<open>q\<close>, and nothing is sent.  The query is built by
  setting \<^verbatim>\<open>service\<close> to the service URL and then writing every login parameter whose
  value is truthy over it: a key of a truthy login parameter maps to that parameter's
  value (a truthy parameter named \<^verbatim>\<open>service\<close> therefore replaces the service URL),
  \<^verbatim>\<open>service\<close> maps to the service URL otherwise, and any other key is as the login URL
  had it, so a parameter with a falsy value is not forwarded.  A request with a relay
  state, ticket or not, is logged out and redirected to the logout URL of the SSO server
  with that relay state.
\<close>

theorem login_redirect:
  "(\<not> truthy (relayState req) \<longrightarrow> service L this req = Inr svc \<longrightarrow>
    \<not> truthy (ticket_of L req) \<longrightarrow> u = url_parse L (ssoBase this @ ''/login'') \<longrightarrow>
    q = add_login_params (obj_set (query u) ''service'' (JStr svc)) lp \<longrightarrow>
      authenticate L this req lp env
        = \<lparr>signals = [Redirect (url_format L (u\<lparr>query := q\<rparr>))], requests = [],
           thrown = None\<rparr> \<and>
      (\<forall>k. map_of q k
             = (case map_of (rev (filter (\<lambda>kv. truthy (snd kv)) lp)) k of
                  Some v \<Rightarrow> Some v
                | None \<Rightarrow> if k = ''service'' then Some (JStr svc) else map_of (query u) k))) \<and>
   (truthy (relayState req) \<longrightarrow>
      authenticate L this req lp env
        = \<lparr>signals = [Logout,
                      Redirect (ssoBase this @ ''/logout?_eventId=next&RelayState=''
                                @ to_string (relayState req))],
           requests = [], thrown = None\<rparr>)"
  by (simp add: authenticate_def Let_def map_of_add_login_params map_of_obj_set
        split: option.splits)

lemma example_plain_service:
  "service example_lib example_strategy example_plain_req
     = Inr (url_format example_lib (example_plain_resolved\<lparr>search := None\<rparr>))"
  by (simp add: service_def example_strategy_def example_plain_req_def example_lib_def
      example_parse_def example_plain_resolved_def example_plain_def empty_url_def
      obj_delete_def)

lemma example_plain_ticket: "ticket_of example_lib example_plain_req = JUndefined"
  by (simp add: ticket_of_def example_plain_req_def example_lib_def example_parse_def
      example_plain_def empty_url_def)

lemma example_login_parsed:
  "url_parse example_lib (ssoBase example_strategy @ ''/login'') = example_login"
  "query example_login = []"
  by (simp_all add: example_lib_def example_parse_def example_strategy_def example_login_def
      example_sso_def empty_url_def)

text \<open>
  With the login parameters \<^verbatim>\<open>{renew: "true", foo: ""}\<close> the query is the service URL
  and \<^verbatim>\<open>renew=true\<close>; it has no \<^verbatim>\<open>foo\<close>.  With the relay state \<^verbatim>\<open>x\<close> the request is
  logged out and sent to the logout URL.
\<close>

theorem login_redirect_witness:
  "authenticate example_lib example_strategy example_plain_req
     [(''renew'', JStr ''true''), (''foo'', JStr [])]
     \<lparr>uuid = ''id-1'', now = ''2024-01-01T00:00:00.000Z'', events = []\<rparr>
     = \<lparr>signals = [Redirect (url_format example_lib (example_login\<lparr>query :=
           [(''service'', JStr (url_format example_lib
                                  (example_plain_resolved\<lparr>search := None\<rparr>))),
            (''renew'', JStr ''true'')]\<rparr>))],
        requests = [], thrown = None\<rparr> \<and>
   map_of [(''service'', JStr (url_format example_lib
                                  (example_plain_resolved\<lparr>search := None\<rparr>))),
           (''renew'', JStr ''true'')] ''foo'' = None \<and>
   authenticate example_lib example_strategy (example_plain_req\<lparr>relayState := JStr ''x''\<rparr>)
     [] \<lparr>uuid = ''id-1'', now = ''2024-01-01T00:00:00.000Z'', events = []\<rparr>
     = \<lparr>signals = [Logout,
          Redirect ''https://cas.example.org/cas/logout?_eventId=next&RelayState=x''],
        requests = [], thrown = None\<rparr>"
  using login_redirect
    [where req = "example_plain_req\<lparr>relayState := JStr ''x''\<rparr>" and L = example_lib
       and this = example_strategy and lp = "[]"
       and env = "\<lparr>uuid = ''id-1'', now = ''2024-01-01T00:00:00.000Z'', events = []\<rparr>"]
    login_redirect
    [of example_plain_req example_lib example_strategy
        "url_format example_lib (example_plain_resolved\<lparr>search := None\<rparr>)"
        example_login
        "[(''service'', JStr (url_format example_lib
                                  (example_plain_resolved\<lparr>search := None\<rparr>))),
          (''renew'', JStr ''true'')]"
        "[(''renew'', JStr ''true''), (''foo'', JStr [])]"
        "\<lparr>uuid = ''id-1'', now = ''2024-01-01T00:00:00.000Z'', events = []\<rparr>"]
    example_plain_service example_plain_ticket example_login_parsed
  by (simp add: example_plain_req_def example_strategy_def)

text \<open>
  Claim C9 as stated fails twice.  A request with no ticket and the relay state \<^verbatim>\<open>x\<close>
  is logged out and redirected to the logout URL, not to the login URL.  And with the login
  parameter \<^verbatim>\<open>service\<close> set by the caller, the redirect carries the caller's value in
  place of the service URL.
\<close>

theorem login_redirect_counterexample:
  "signals (authenticate example_lib example_strategy
      (example_plain_req\<lparr>relayState := JStr ''x''\<rparr>) []
      \<lparr>uuid = ''id-1'', now = ''2024-01-01T00:00:00.000Z'', events = []\<rparr>)
     = [Logout, Redirect ''https://cas.example.org/cas/logout?_eventId=next&RelayState=x''] \<and>
   signals (authenticate example_lib example_strategy example_plain_req
      [(''service'', JStr ''https://elsewhere.example/'')]
      \<lparr>uuid = ''id-1'', now = ''2024-01-01T00:00:00.000Z'', events = []\<rparr>)
     = [Redirect (url_format example_lib (example_login\<lparr>query :=
           [(''service'', JStr ''https://elsewhere.example/'')]\<rparr>))]"
  using example_plain_service example_plain_ticket example_login_parsed
  by (simp add: authenticate_def example_plain_req_def example_strategy_def)

section \<open>A CAS 3.0 failure without a code\<close>

text \<open>
  Claim C10, as amended.  A present \<^verbatim>\<open>authenticationfailure\<close> node with no attribute
  object at all makes the read of \<^verbatim>\<open>code\<close> throw; the \<^verbatim>\<open>catch\<close> turns that into the
  plain error \<^verbatim>\<open>Authentication failed\<close>.  A node that has attributes, none of them
  \<^verbatim>\<open>code\<close>, throws nothing: the missing attribute reads as \<^verbatim>\<open>undefined\<close> and the
  message is \<^verbatim>\<open>Authentication failed undefined\<close>.
\<close>

theorem cas3_failure_without_code:
  "parseString L body = Inr result \<longrightarrow>
   get_path result [''serviceresponse'', ''authenticationfailure''] = Inr failure \<longrightarrow>
   truthy failure \<longrightarrow>
     (get_prop failure ''$'' = Inr JUndefined \<longrightarrow>
        validate_cas3 L p v r body = ([Error (JError ''Authentication failed'')], None)) \<and>
     (get_path failure [''$'', ''code''] = Inr JUndefined \<longrightarrow>
        validate_cas3 L p v r body
          = ([Error (JError ''Authentication failed undefined'')], None))"
  by (auto simp: validate_cas3_def cas3_try_def bind_js_def try_catch_def verified_error_eq
        split: sum.splits)

text \<open>
  A failure node with text and no attribute gives the plain error; one with the attribute
  \<^verbatim>\<open>reason\<close> only gives the message that ends in \<^verbatim>\<open>undefined\<close>.
\<close>

theorem cas3_failure_without_code_witness:
  "validate_cas3 example_lib False accept_all example_req xml_failure_no_attribute
     = ([Error (JError ''Authentication failed'')], None) \<and>
   validate_cas3 example_lib False accept_all example_req xml_failure_other_attribute
     = ([Error (JError ''Authentication failed undefined'')], None)"
proof -
  note t1 = cas3_failure_without_code
      [of example_lib xml_failure_no_attribute _ "JStr ''Ticket ST-1 not recognized''"
          False accept_all example_req]
  note t2 = cas3_failure_without_code
      [of example_lib xml_failure_other_attribute _
          "JObj [(''_'', JStr ''Ticket ST-1 not recognized''),
                 (''$'', JObj [(''reason'', JStr ''expired'')])]"
          False accept_all example_req]
  show ?thesis
    using example_parses(2,3) t1 t2 by simp
qed

text \<open>
  Claim C10 as stated fails: a failure node whose only attribute is \<^verbatim>\<open>reason\<close> lacks
  \<^verbatim>\<open>code\<close>, nothing throws, and the message is not the plain one.
\<close>

theorem cas3_failure_other_attribute_counterexample:
  "validate_cas3 example_lib False accept_all example_req xml_failure_other_attribute
     = ([Error (JError ''Authentication failed undefined'')], None)"
  by (simp add: validate_cas3_def example_parses(2) cas3_try_def bind_js_def try_catch_def
      verified_error_eq)

end
